theory Spec2Isabelle
  imports Complex_Main "HOL-Library.AList"
begin

section \<open>Values, errors and promises\<close>

text \<open>
  The message-broker client of \<^verbatim>\<open>src/shared/rabbitmq-client.js\<close> and the payment
  service of \<^verbatim>\<open>src/services/payment/index.js\<close> that is built on it.

  Messages and option objects are JSON data. An object is an association list; the
  spread \<^verbatim>\<open>{...a, ...b}\<close> is \<^term>\<open>AList.merge a b\<close> (the entries of \<open>b\<close> win), and a
  property read is \<^term>\<open>map_of\<close>, where \<open>None\<close> stands for \<^verbatim>\<open>undefined\<close>; the order
  of the entries carries no meaning. Numbers are the integers the services exchange
  (counters, millisecond clocks, amounts).
  Logger calls change neither the client nor the broker and are left out, except where
  they read a property of a caught value (\<^verbatim>\<open>error.message\<close>), which throws when that
  value is \<^verbatim>\<open>null\<close> or \<^verbatim>\<open>undefined\<close>.
\<close>

datatype json =
    JNull
  | JBool bool
  | JNum int
  | JStr string
  | JArr "json list"
  | JObj "(string \<times> json) list"

type_synonym obj = "(string \<times> json) list"

text \<open>JavaScript truthiness of a property that may be missing.\<close>

fun truthy :: "json option \<Rightarrow> bool" where
  "truthy None = False"
| "truthy (Some JNull) = False"
| "truthy (Some (JBool b)) = b"
| "truthy (Some (JNum n)) = (n \<noteq> 0)"
| "truthy (Some (JStr s)) = (s \<noteq> [])"
| "truthy (Some (JArr xs)) = True"
| "truthy (Some (JObj kvs)) = True"

text \<open>
  What a \<^verbatim>\<open>throw\<close> or a rejected promise carries. \<open>ChannelNotInitialized\<close> is
  \<^verbatim>\<open>new Error('Channel not initialized')\<close>, the only error the client itself throws.
  \<open>Raised m\<close> is an error with message \<open>m\<close> that comes from outside it: the amqplib
  connection or channel, the payment gateway, the runtime, a handler. \<open>Nullish\<close> is the
  value \<^verbatim>\<open>null\<close> or \<^verbatim>\<open>undefined\<close>, which a handler may throw or reject with (as in
  \<^verbatim>\<open>setTimeout(reject, ms)\<close>) and which has no properties to read.
\<close>

datatype error = ChannelNotInitialized | Raised string | Nullish

text \<open>
  How a call into the library or the runtime ends: \<open>Inr v\<close> when it returns \<open>v\<close>,
  \<open>Inl m\<close> when it throws (or its promise rejects with) an error of message \<open>m\<close>.
\<close>

type_synonym 'a outcome = "string + 'a"

text \<open>Reading \<^verbatim>\<open>error.message\<close>: \<open>None\<close> when the read throws a \<^verbatim>\<open>TypeError\<close>.\<close>

fun message :: "error \<Rightarrow> string option" where
  "message ChannelNotInitialized = Some ''Channel not initialized''"
| "message (Raised m) = Some m"
| "message Nullish = None"

text \<open>
  \<^verbatim>\<open>logError(logger, error, context)\<close> of \<^verbatim>\<open>src/shared/logger.js\<close>: it reads
  \<^verbatim>\<open>error.message\<close> and logs. Where the client calls it on an error raised by the
  library (the listeners and the \<^verbatim>\<open>catch\<close> blocks of \<^verbatim>\<open>connect\<close> and \<^verbatim>\<open>close\<close>) it
  returns and is left out; in the callback of \<^verbatim>\<open>consume\<close> the caught value is whatever
  the handler threw.
\<close>

definition logError :: "error \<Rightarrow> error + unit" where
  "logError e = (case message e of None \<Rightarrow> Inl (Raised ''TypeError'') | Some m \<Rightarrow> Inr ())"

text \<open>
  The result of an \<^verbatim>\<open>async\<close> method. Awaited library calls complete with the outcome
  the environment gives them (\<open>Inl\<close> when they throw or reject). The one wait that is
  kept visible is the wait for the channel's \<^verbatim>\<open>'drain'\<close> event in \<^verbatim>\<open>publish\<close> and
  \<^verbatim>\<open>sendToQueue\<close>: \<open>AwaitDrain p\<close> is a call that is still pending and continues as \<open>p\<close>
  once the event has been emitted.
\<close>

datatype 'a promise = Resolved 'a | Rejected error | AwaitDrain "'a promise"

fun settled :: "'a promise \<Rightarrow> bool" where
  "settled (AwaitDrain p) = False"
| "settled p = True"

text \<open>Events a channel emits; only \<^verbatim>\<open>'drain'\<close> has a listener that resumes a call.\<close>

datatype signal = DrainSignal | ErrorSignal | CloseSignal

fun notify :: "'a promise \<Rightarrow> signal \<Rightarrow> 'a promise" where
  "notify (AwaitDrain p) DrainSignal = p"
| "notify p sig = p"

text \<open>\<^verbatim>\<open>await p\<close> inside a handler: the handler goes on once \<open>p\<close> has settled.\<close>

fun awaited :: "'a promise \<Rightarrow> error + 'a" where
  "awaited (Resolved v) = Inr v"
| "awaited (Rejected e) = Inl e"
| "awaited (AwaitDrain p) = awaited p"

section \<open>Configuration (\<^verbatim>\<open>src/shared/config.js\<close>)\<close>

record config =
  username :: string
  password :: string
  host :: string
  port :: nat
  vhost :: string
  heartbeat :: nat
  reconnectInterval :: nat
  maxAttempts :: int

definition default_config :: config where
  "default_config =
     \<lparr>username = ''admin'', password = ''admin123'', host = ''localhost'', port = 5672,
      vhost = ''/'', heartbeat = 60, reconnectInterval = 5000, maxAttempts = 3\<rparr>"

definition ordersFanout :: string where "ordersFanout = ''orders.fanout''"
definition ordersTopic :: string where "ordersTopic = ''orders.topic''"
definition paymentsProcess :: string where "paymentsProcess = ''payments.process''"
definition paymentsRetry :: string where "paymentsRetry = ''payments.retry''"
definition paymentsDead :: string where "paymentsDead = ''payments.dead''"

text \<open>Decimal digits of a number inside a template string.\<close>

function show_nat :: "nat \<Rightarrow> string" where
  "show_nat n =
     (if n < 10 then [char_of (48 + n)]
      else show_nat (n div 10) @ [char_of (48 + n mod 10)])"
  by pat_completeness auto
termination
  by (relation "measure id") auto

declare show_nat.simps [simp del]

section \<open>The client (\<^verbatim>\<open>class RabbitMQClient\<close>)\<close>

text \<open>
  Calls the client makes on amqplib, in the order it makes them. Channel calls are made
  on \<^verbatim>\<open>this.channel\<close>. A message buffer \<^verbatim>\<open>Buffer.from(JSON.stringify(message))\<close> is
  written as the JSON value it encodes.
\<close>

datatype broker_call =
    AmqpConnect string nat
  | CreateChannel
  | Prefetch nat
  | AssertExchangeCall string string obj
  | AssertQueueCall string obj
  | BindQueueCall string string string obj
  | PublishCall string string json obj
  | SendToQueueCall string json obj
  | OnceCall string
  | ConsumeCall string obj
  | AckCall nat
  | NackCall nat bool bool
  | CancelCall string
  | ChannelCloseCall
  | ConnectionCloseCall

text \<open>
  The fields of the class, followed by what the runtime and the library hold for it:
  \<open>timers\<close> are the pending \<^verbatim>\<open>setTimeout\<close> handles with their delays, \<open>next_timer\<close>
  the next handle the runtime hands out, \<open>calls\<close> the library calls made so far.
  Connection and channel objects are handles. \<open>consumers\<close> is the \<^verbatim>\<open>Map\<close> from queue
  to consumer tag, in insertion order.
\<close>

record client =
  serviceName :: string
  connection :: "nat option"
  channel :: "nat option"
  isConnected :: bool
  reconnectTimer :: "nat option"
  consumers :: "(string \<times> string) list"
  timers :: "(nat \<times> nat) list"
  next_timer :: nat
  calls :: "broker_call list"

definition new_client :: "string \<Rightarrow> client" where
  "new_client name =
     \<lparr>serviceName = name, connection = None, channel = None, isConnected = False,
      reconnectTimer = None, consumers = [], timers = [], next_timer = 0, calls = []\<rparr>"

definition emit :: "broker_call \<Rightarrow> 'a client_scheme \<Rightarrow> 'a client_scheme" where
  "emit c s = s\<lparr>calls := calls s @ [c]\<rparr>"

subsection \<open>Connection supervision\<close>

definition scheduleReconnect :: "config \<Rightarrow> 'a client_scheme \<Rightarrow> 'a client_scheme" where
  "scheduleReconnect cfg s =
     (case reconnectTimer s of
        Some t \<Rightarrow> s
      | None \<Rightarrow>
          s\<lparr>reconnectTimer := Some (next_timer s),
            timers := timers s @ [(next_timer s, reconnectInterval cfg)],
            next_timer := Suc (next_timer s)\<rparr>)"

definition amqpUrl :: "config \<Rightarrow> string" where
  "amqpUrl cfg =
     ''amqp://'' @ username cfg @ '':'' @ password cfg @ ''@'' @ host cfg @ '':'' @
     show_nat (port cfg) @ vhost cfg"

text \<open>What the three awaited calls of \<^verbatim>\<open>connect\<close> give back.\<close>

record connect_env =
  amqp_connect :: "nat outcome"
  create_channel :: "nat outcome"
  prefetch :: "unit outcome"

text \<open>The body of the \<^verbatim>\<open>try\<close> block of \<^verbatim>\<open>connect\<close>: \<open>Inl\<close> is the error it throws.\<close>

definition connect_try ::
  "config \<Rightarrow> connect_env \<Rightarrow> 'a client_scheme \<Rightarrow> (error + bool) \<times> 'a client_scheme" where
  "connect_try cfg env s =
     (let s1 = emit (AmqpConnect (amqpUrl cfg) (heartbeat cfg)) s in
      case amqp_connect env of
        Inl m \<Rightarrow> (Inl (Raised m), s1)
      | Inr conn \<Rightarrow>
          (let s2 = emit CreateChannel (s1\<lparr>connection := Some conn\<rparr>) in
           case create_channel env of
             Inl m \<Rightarrow> (Inl (Raised m), s2)
           | Inr ch \<Rightarrow>
               (let s3 = emit (Prefetch 1) (s2\<lparr>channel := Some ch\<rparr>) in
                case prefetch env of
                  Inl m \<Rightarrow> (Inl (Raised m), s3)
                | Inr u \<Rightarrow> (Inr True, s3\<lparr>isConnected := True\<rparr>))))"

definition connect ::
  "config \<Rightarrow> connect_env \<Rightarrow> 'a client_scheme \<Rightarrow> bool promise \<times> 'a client_scheme" where
  "connect cfg env s =
     (case connect_try cfg env s of
        (Inr b, s') \<Rightarrow> (Resolved b, s')
      | (Inl e, s') \<Rightarrow> (Resolved False, scheduleReconnect cfg s'))"

text \<open>The listeners \<^verbatim>\<open>connect\<close> registers on the connection and on the channel.\<close>

definition on_connection_error :: "'a client_scheme \<Rightarrow> 'a client_scheme" where
  "on_connection_error s = s\<lparr>isConnected := False\<rparr>"

definition on_connection_close :: "config \<Rightarrow> 'a client_scheme \<Rightarrow> 'a client_scheme" where
  "on_connection_close cfg s = scheduleReconnect cfg (s\<lparr>isConnected := False\<rparr>)"

definition on_channel_error :: "'a client_scheme \<Rightarrow> 'a client_scheme" where
  "on_channel_error s = s"

definition on_channel_close :: "'a client_scheme \<Rightarrow> 'a client_scheme" where
  "on_channel_close s = s"

text \<open>
  The runtime fires the pending timer \<open>t\<close>: the handle leaves the runtime's table and
  the callback of \<^verbatim>\<open>scheduleReconnect\<close> runs. A handle that is not pending never fires.
\<close>

definition timer_fires ::
  "config \<Rightarrow> connect_env \<Rightarrow> nat \<Rightarrow> 'a client_scheme \<Rightarrow> 'a client_scheme" where
  "timer_fires cfg env t s =
     (if t \<in> fst ` set (timers s)
      then snd (connect cfg env
             (s\<lparr>timers := filter (\<lambda>p. fst p \<noteq> t) (timers s), reconnectTimer := None\<rparr>))
      else s)"

definition isHealthy :: "'a client_scheme \<Rightarrow> bool" where
  "isHealthy s = (isConnected s \<and> channel s \<noteq> None)"

subsection \<open>Topology\<close>

definition assertExchange ::
  "unit outcome \<Rightarrow> string \<Rightarrow> string \<Rightarrow> obj \<Rightarrow> 'a client_scheme \<Rightarrow>
   unit promise \<times> 'a client_scheme" where
  "assertExchange res exchange type options s =
     (case channel s of
        None \<Rightarrow> (Rejected ChannelNotInitialized, s)
      | Some ch \<Rightarrow>
          (let defaultOptions =
                 AList.merge [(''durable'', JBool True), (''autoDelete'', JBool False)] options;
               s1 = emit (AssertExchangeCall exchange type defaultOptions) s
           in case res of Inl m \<Rightarrow> (Rejected (Raised m), s1) | Inr u \<Rightarrow> (Resolved (), s1)))"

definition assertQueue ::
  "obj outcome \<Rightarrow> string \<Rightarrow> obj \<Rightarrow> 'a client_scheme \<Rightarrow> obj promise \<times> 'a client_scheme" where
  "assertQueue res queue options s =
     (case channel s of
        None \<Rightarrow> (Rejected ChannelNotInitialized, s)
      | Some ch \<Rightarrow>
          (let defaultOptions =
                 AList.merge [(''durable'', JBool True), (''autoDelete'', JBool False)] options;
               s1 = emit (AssertQueueCall queue defaultOptions) s
           in case res of
                Inl m \<Rightarrow> (Rejected (Raised m), s1)
              | Inr result \<Rightarrow> (Resolved result, s1)))"

definition bindQueue ::
  "unit outcome \<Rightarrow> string \<Rightarrow> string \<Rightarrow> string \<Rightarrow> obj \<Rightarrow> 'a client_scheme \<Rightarrow>
   unit promise \<times> 'a client_scheme" where
  "bindQueue res queue exchange routingKey args s =
     (case channel s of
        None \<Rightarrow> (Rejected ChannelNotInitialized, s)
      | Some ch \<Rightarrow>
          (let s1 = emit (BindQueueCall queue exchange routingKey args) s
           in case res of Inl m \<Rightarrow> (Rejected (Raised m), s1) | Inr u \<Rightarrow> (Resolved (), s1)))"

subsection \<open>Publishing\<close>

text \<open>
  What one \<^verbatim>\<open>publish\<close> or \<^verbatim>\<open>sendToQueue\<close> call reads from outside: \<^verbatim>\<open>Date.now()\<close> for
  the timestamp, \<^verbatim>\<open>Date.now()\<close> and the random suffix inside \<^verbatim>\<open>generateMessageId\<close>,
  and what the channel's send returns: \<^verbatim>\<open>true\<close>, \<^verbatim>\<open>false\<close> (write buffer full) or an
  exception.
\<close>

record send_env =
  now :: nat
  id_now :: nat
  id_rand :: string
  accepted :: "bool outcome"

definition generateMessageId :: "send_env \<Rightarrow> 'a client_scheme \<Rightarrow> string" where
  "generateMessageId env s = serviceName s @ ''-'' @ show_nat (id_now env) @ ''-'' @ id_rand env"

definition send_defaults :: "send_env \<Rightarrow> 'a client_scheme \<Rightarrow> obj" where
  "send_defaults env s =
     [(''persistent'', JBool True),
      (''contentType'', JStr ''application/json''),
      (''timestamp'', JNum (int (now env))),
      (''messageId'', JStr (generateMessageId env s))]"

definition publish ::
  "send_env \<Rightarrow> string \<Rightarrow> string \<Rightarrow> json \<Rightarrow> obj \<Rightarrow> 'a client_scheme \<Rightarrow>
   json option promise \<times> 'a client_scheme" where
  "publish env exchange routingKey msg options s =
     (case channel s of
        None \<Rightarrow> (Rejected ChannelNotInitialized, s)
      | Some ch \<Rightarrow>
          (let defaultOptions = AList.merge (send_defaults env s) options;
               s1 = emit (PublishCall exchange routingKey msg defaultOptions) s
           in case accepted env of
                Inl m \<Rightarrow> (Rejected (Raised m), s1)
              | Inr published \<Rightarrow>
                  if \<not> published
                  then (AwaitDrain (Resolved (map_of defaultOptions ''messageId'')),
                        emit (OnceCall ''drain'') s1)
                  else (Resolved (map_of defaultOptions ''messageId''), s1)))"

definition publishWithHeaders ::
  "send_env \<Rightarrow> string \<Rightarrow> json \<Rightarrow> json \<Rightarrow> obj \<Rightarrow> 'a client_scheme \<Rightarrow>
   json option promise \<times> 'a client_scheme" where
  "publishWithHeaders env exchange msg hdrs options s =
     publish env exchange [] msg (AList.merge options [(''headers'', hdrs)]) s"

definition sendToQueue ::
  "send_env \<Rightarrow> string \<Rightarrow> json \<Rightarrow> obj \<Rightarrow> 'a client_scheme \<Rightarrow>
   json option promise \<times> 'a client_scheme" where
  "sendToQueue env queue msg options s =
     (case channel s of
        None \<Rightarrow> (Rejected ChannelNotInitialized, s)
      | Some ch \<Rightarrow>
          (let defaultOptions = AList.merge (send_defaults env s) options;
               s1 = emit (SendToQueueCall queue msg defaultOptions) s
           in case accepted env of
                Inl m \<Rightarrow> (Rejected (Raised m), s1)
              | Inr sent \<Rightarrow>
                  if \<not> sent
                  then (AwaitDrain (Resolved (map_of defaultOptions ''messageId'')),
                        emit (OnceCall ''drain'') s1)
                  else (Resolved (map_of defaultOptions ''messageId''), s1)))"

subsection \<open>Consuming\<close>

text \<open>
  A delivery as the callback of \<^verbatim>\<open>consume\<close> reads it. \<open>body\<close> is what
  \<^verbatim>\<open>JSON.parse(msg.content.toString())\<close> returns, \<open>None\<close> when it throws; the services
  exchange JSON objects only. \<open>headers\<close> is \<^verbatim>\<open>msg.properties.headers\<close>, restricted to
  its numeric entries; \<open>deliveryTag\<close> and \<open>redelivered\<close> are the fields of
  \<^verbatim>\<open>msg.fields\<close>.
\<close>

record delivery =
  body :: "obj option"
  headers :: "(string \<times> int) list option"
  deliveryTag :: nat
  redelivered :: bool

type_synonym 's handler = "obj \<Rightarrow> delivery \<Rightarrow> 's \<Rightarrow> (error + unit) \<times> 's"

definition consume ::
  "string outcome \<Rightarrow> string \<Rightarrow> obj \<Rightarrow> 'a client_scheme \<Rightarrow>
   string promise \<times> 'a client_scheme" where
  "consume res queue options s =
     (case channel s of
        None \<Rightarrow> (Rejected ChannelNotInitialized, s)
      | Some ch \<Rightarrow>
          (let defaultOptions = AList.merge [(''noAck'', JBool False)] options;
               s1 = emit (ConsumeCall queue defaultOptions) s
           in case res of
                Inl m \<Rightarrow> (Rejected (Raised m), s1)
              | Inr consumerTag \<Rightarrow>
                  (Resolved consumerTag,
                   s1\<lparr>consumers := AList.update queue consumerTag (consumers s1)\<rparr>)))"

text \<open>
  A method call on \<^verbatim>\<open>this.channel\<close> from inside the callback: a \<^verbatim>\<open>TypeError\<close> when the
  field is \<^verbatim>\<open>null\<close>, else the call is made and ends as the library decides.
\<close>

definition channel_call ::
  "broker_call \<Rightarrow> unit outcome \<Rightarrow> 'a client_scheme \<Rightarrow> (error + unit) \<times> 'a client_scheme" where
  "channel_call c res s =
     (case channel s of
        None \<Rightarrow> (Inl (Raised ''TypeError''), s)
      | Some ch \<Rightarrow>
          (case res of Inl m \<Rightarrow> (Inl (Raised m), emit c s) | Inr u \<Rightarrow> (Inr (), emit c s)))"

text \<open>
  The \<^verbatim>\<open>try\<close> block of the callback \<^verbatim>\<open>consume\<close> hands to the channel: parse, run the
  handler, acknowledge unless \<^verbatim>\<open>noAck\<close>. \<open>ack_res\<close> is how \<^verbatim>\<open>channel.ack\<close> ends.
\<close>

definition on_message_try ::
  "bool \<Rightarrow> 'a client_scheme handler \<Rightarrow> unit outcome \<Rightarrow> delivery \<Rightarrow> 'a client_scheme \<Rightarrow>
   (error + unit) \<times> 'a client_scheme" where
  "on_message_try noAck handler ack_res msg s =
     (case body msg of
        None \<Rightarrow> (Inl (Raised ''SyntaxError''), s)
      | Some content \<Rightarrow>
          (case handler content msg s of
             (Inl e, s1) \<Rightarrow> (Inl e, s1)
           | (Inr u, s1) \<Rightarrow>
               if \<not> noAck then channel_call (AckCall (deliveryTag msg)) ack_res s1
               else (Inr (), s1)))"

text \<open>
  The whole callback, for a registration made with \<open>options\<close>. A null delivery is
  ignored. The \<^verbatim>\<open>catch\<close> block first calls \<^verbatim>\<open>logError\<close> on the caught value; when that
  throws, the callback ends there. Otherwise it rejects the message unless \<^verbatim>\<open>noAck\<close>.
  Nothing awaits the callback, so how \<^verbatim>\<open>channel.nack\<close> ends changes nothing.
\<close>

definition on_message ::
  "obj \<Rightarrow> 'a client_scheme handler \<Rightarrow> unit outcome \<Rightarrow> delivery option \<Rightarrow>
   'a client_scheme \<Rightarrow> 'a client_scheme" where
  "on_message options handler ack_res m s =
     (case m of
        None \<Rightarrow> s
      | Some msg \<Rightarrow>
          (let defaultOptions = AList.merge [(''noAck'', JBool False)] options;
               noAck = truthy (map_of defaultOptions ''noAck'')
           in case on_message_try noAck handler ack_res msg s of
                (Inr u, s1) \<Rightarrow> s1
              | (Inl e, s1) \<Rightarrow>
                  (case logError e of
                     Inl thrown \<Rightarrow> s1
                   | Inr u \<Rightarrow>
                       if \<not> noAck
                       then (let requeue = \<not> redelivered msg
                             in snd (channel_call (NackCall (deliveryTag msg) False requeue)
                                       (Inr ()) s1))
                       else s1)))"

definition cancelConsumer ::
  "unit outcome \<Rightarrow> string \<Rightarrow> 'a client_scheme \<Rightarrow> unit promise \<times> 'a client_scheme" where
  "cancelConsumer res queue s =
     (case map_of (consumers s) queue of
        None \<Rightarrow> (Resolved (), s)
      | Some consumerTag \<Rightarrow>
          if consumerTag \<noteq> [] \<and> channel s \<noteq> None
          then (let s1 = emit (CancelCall consumerTag) s
                in case res of
                     Inl m \<Rightarrow> (Rejected (Raised m), s1)
                   | Inr u \<Rightarrow>
                       (Resolved (), s1\<lparr>consumers := AList.delete queue (consumers s1)\<rparr>))
          else (Resolved (), s))"

subsection \<open>Closing\<close>

text \<open>
  How the calls \<^verbatim>\<open>close\<close> awaits end: cancelling the consumer of each queue, closing
  the channel, closing the connection.
\<close>

record close_env =
  cancel_res :: "string \<Rightarrow> unit outcome"
  channel_close :: "unit outcome"
  connection_close :: "unit outcome"

text \<open>
  The loop over \<^verbatim>\<open>this.consumers.keys()\<close>. Keys are distinct and a call deletes at most
  its own key, so the live iterator visits the keys the map had when the loop began.
\<close>

fun cancel_all ::
  "close_env \<Rightarrow> string list \<Rightarrow> 'a client_scheme \<Rightarrow> (error + unit) \<times> 'a client_scheme" where
  "cancel_all env [] s = (Inr (), s)"
| "cancel_all env (queue # queues) s =
     (case cancelConsumer (cancel_res env queue) queue s of
        (p, s1) \<Rightarrow>
          (case awaited p of
             Inl e \<Rightarrow> (Inl e, s1)
           | Inr u \<Rightarrow> cancel_all env queues s1))"

definition clearTimeout :: "nat \<Rightarrow> 'a client_scheme \<Rightarrow> 'a client_scheme" where
  "clearTimeout t s = s\<lparr>timers := filter (\<lambda>p. fst p \<noteq> t) (timers s)\<rparr>"

definition close_try ::
  "close_env \<Rightarrow> 'a client_scheme \<Rightarrow> (error + unit) \<times> 'a client_scheme" where
  "close_try env s =
     (let s1 = (case reconnectTimer s of
                  Some t \<Rightarrow> (clearTimeout t s)\<lparr>reconnectTimer := None\<rparr>
                | None \<Rightarrow> s)
      in case cancel_all env (map fst (consumers s1)) s1 of
           (Inl e, s2) \<Rightarrow> (Inl e, s2)
         | (Inr u, s2) \<Rightarrow>
             (case (if channel s2 \<noteq> None
                    then (channel_close env, emit ChannelCloseCall s2)
                    else (Inr (), s2)) of
                (Inl m, s3) \<Rightarrow> (Inl (Raised m), s3)
              | (Inr u, s3) \<Rightarrow>
                  (case (if connection s3 \<noteq> None
                         then (connection_close env, emit ConnectionCloseCall s3)
                         else (Inr (), s3)) of
                     (Inl m, s4) \<Rightarrow> (Inl (Raised m), s4)
                   | (Inr u, s4) \<Rightarrow> (Inr (), s4\<lparr>isConnected := False\<rparr>))))"

definition close :: "close_env \<Rightarrow> 'a client_scheme \<Rightarrow> unit promise \<times> 'a client_scheme" where
  "close env s = (case close_try env s of (r, s') \<Rightarrow> (Resolved (), s'))"

section \<open>The payment service (\<^verbatim>\<open>src/services/payment/index.js\<close>)\<close>

text \<open>
  The module's client \<^verbatim>\<open>rabbitMQ\<close> together with its two in-memory maps, keyed by
  \<^verbatim>\<open>paymentData.orderId\<close> (\<open>None\<close> when the request has no such property).
\<close>

record service = client +
  payments :: "(json option \<times> obj) list"
  failedPayments :: "(json option \<times> obj) list"

definition new_service :: service where
  "new_service = client.extend (new_client ''payment-service'')
                   \<lparr>payments = [], failedPayments = []\<rparr>"

text \<open>An object literal as it is serialised: properties that are \<^verbatim>\<open>undefined\<close> are dropped.\<close>

fun literal :: "(string \<times> json option) list \<Rightarrow> obj" where
  "literal [] = []"
| "literal ((k, None) # kvs) = literal kvs"
| "literal ((k, Some v) # kvs) = (k, v) # literal kvs"

text \<open>
  What one run of \<^verbatim>\<open>processPayment\<close> reads from outside: the gateway's
  \<^verbatim>\<open>Math.random()\<close> (the double read as a real number), the clock and random suffix of
  the transaction id, each \<^verbatim>\<open>new Date().toISOString()\<close>, and the environment of each
  publish; \<open>deadLetteredAt\<close> is the clock \<^verbatim>\<open>handleDeadLetter\<close> reads.
\<close>

record payment_env =
  draw :: real
  txn_now :: nat
  txn_rand :: string
  txn_iso :: string
  processedAt :: string
  success_iso :: string
  success_send :: send_env
  shipping_iso :: string
  shipping_send :: send_env
  failedAt :: string
  failure_iso :: string
  failure_send :: send_env
  deadLetteredAt :: string

definition simulatePaymentGateway :: "payment_env \<Rightarrow> json option \<Rightarrow> error + obj" where
  "simulatePaymentGateway env amount =
     (if draw env < 0.3 then Inl (Raised ''Payment gateway timeout'')
      else if draw env < 0.4 then Inl (Raised ''Insufficient funds'')
      else Inr [(''transactionId'',
                   JStr (''TXN-'' @ show_nat (txn_now env) @ ''-'' @ txn_rand env)),
                (''status'', JStr ''completed''),
                (''timestamp'', JStr (txn_iso env))])"

text \<open>
  \<^verbatim>\<open>(msg.properties.headers && msg.properties.headers['x-retry-count']) || 0\<close>, the
  attempt count both \<^verbatim>\<open>processPayment\<close> and \<^verbatim>\<open>handleRetry\<close> read.
\<close>

definition retryCountOf :: "delivery \<Rightarrow> int" where
  "retryCountOf msg =
     (case headers msg of
        None \<Rightarrow> 0
      | Some h \<Rightarrow> (case map_of h ''x-retry-count'' of None \<Rightarrow> 0 | Some n \<Rightarrow> n))"

text \<open>The \<^verbatim>\<open>try\<close> block of \<^verbatim>\<open>processPayment\<close>.\<close>

definition payment_try ::
  "payment_env \<Rightarrow> obj \<Rightarrow> int \<Rightarrow> 'a service_scheme \<Rightarrow> (error + unit) \<times> 'a service_scheme" where
  "payment_try env paymentData retryCount s =
     (case simulatePaymentGateway env (map_of paymentData ''amount'') of
        Inl e \<Rightarrow> (Inl e, s)
      | Inr result \<Rightarrow>
          (let payment =
                 AList.merge (AList.merge paymentData result)
                   [(''retryCount'', JNum retryCount),
                    (''processedAt'', JStr (processedAt env))];
               s1 = s\<lparr>payments :=
                        AList.update (map_of paymentData ''orderId'') payment (payments s)\<rparr>
           in case publish (success_send env) ordersFanout []
                     (JObj (literal
                        [(''eventType'', Some (JStr ''payment.success'')),
                         (''orderId'', map_of paymentData ''orderId''),
                         (''transactionId'', map_of result ''transactionId''),
                         (''amount'', map_of paymentData ''amount''),
                         (''timestamp'', Some (JStr (success_iso env)))])) [] s1 of
                (p1, s2) \<Rightarrow>
                  (case awaited p1 of
                     Inl e \<Rightarrow> (Inl e, s2)
                   | Inr id1 \<Rightarrow>
                       (case publish (shipping_send env) ordersTopic ''shipping.create''
                               (JObj (literal
                                  [(''orderId'', map_of paymentData ''orderId''),
                                   (''shippingAddress'',
                                      if truthy (map_of paymentData ''shippingAddress'')
                                      then map_of paymentData ''shippingAddress''
                                      else Some (JStr ''Default Address'')),
                                   (''timestamp'', Some (JStr (shipping_iso env)))])) [] s2 of
                          (p2, s3) \<Rightarrow>
                            (case awaited p2 of
                               Inl e \<Rightarrow> (Inl e, s3)
                             | Inr id2 \<Rightarrow> (Inr (), s3))))))"

text \<open>
  \<^verbatim>\<open>processPayment\<close>. Its \<^verbatim>\<open>catch\<close> block starts by reading \<^verbatim>\<open>error.message\<close> (for
  the log entry), then decides between retry and final failure.
\<close>

definition processPayment ::
  "config \<Rightarrow> payment_env \<Rightarrow> 'a service_scheme handler" where
  "processPayment cfg env paymentData msg s =
     (let retryCount = retryCountOf msg
      in case payment_try env paymentData retryCount s of
           (Inr u, s1) \<Rightarrow> (Inr (), s1)
         | (Inl err, s1) \<Rightarrow>
             (case message err of
                None \<Rightarrow> (Inl (Raised ''TypeError''), s1)
              | Some errorMessage \<Rightarrow>
                  if retryCount < maxAttempts cfg then (Inl err, s1)
                  else
                    (let s2 = s1\<lparr>failedPayments :=
                                   AList.update (map_of paymentData ''orderId'')
                                     (AList.merge paymentData
                                        [(''error'', JStr errorMessage),
                                         (''retryCount'', JNum retryCount),
                                         (''failedAt'', JStr (failedAt env))])
                                     (failedPayments s1)\<rparr>
                     in case publish (failure_send env) ordersFanout []
                               (JObj (literal
                                  [(''eventType'', Some (JStr ''payment.failed'')),
                                   (''orderId'', map_of paymentData ''orderId''),
                                   (''error'', Some (JStr errorMessage)),
                                   (''retryCount'', Some (JNum retryCount)),
                                   (''timestamp'', Some (JStr (failure_iso env)))])) [] s2 of
                          (p, s3) \<Rightarrow>
                            (case awaited p of
                               Inl e \<Rightarrow> (Inl e, s3)
                             | Inr mid \<Rightarrow> (Inl err, s3)))))"

definition handleRetry :: "send_env \<Rightarrow> 'a service_scheme handler" where
  "handleRetry env retryData msg s =
     (let currentRetryCount = retryCountOf msg;
          newRetryCount = currentRetryCount + 1
      in case sendToQueue env paymentsProcess (JObj retryData)
                [(''headers'', JObj [(''x-retry-count'', JNum newRetryCount)])] s of
           (p, s1) \<Rightarrow>
             (case awaited p of Inl e \<Rightarrow> (Inl e, s1) | Inr mid \<Rightarrow> (Inr (), s1)))"

definition handleDeadLetter :: "string \<Rightarrow> 'a service_scheme handler" where
  "handleDeadLetter clock deadData msg s =
     (Inr (),
      s\<lparr>failedPayments :=
          AList.update (map_of deadData ''orderId'')
            (AList.merge deadData
               [(''deadLetteredAt'', JStr clock),
                (''reason'', JStr ''Max retries exceeded or permanent failure'')])
            (failedPayments s)\<rparr>)"

text \<open>
  The consumers \<^verbatim>\<open>start\<close> registers, each with the default options: the payment queue
  runs \<^verbatim>\<open>processPayment\<close>, the retry queue has a handler that only logs, the dead-letter
  queue runs \<^verbatim>\<open>handleDeadLetter\<close>. \<^verbatim>\<open>handleRetry\<close> is registered nowhere.
\<close>

definition start_consumers ::
  "config \<Rightarrow> payment_env \<Rightarrow> (string \<times> 'a service_scheme handler) list" where
  "start_consumers cfg env =
     [(paymentsProcess, \<lambda>message msg. processPayment cfg env message msg),
      (paymentsRetry, \<lambda>message msg s. (Inr (), s)),
      (paymentsDead, \<lambda>message msg. handleDeadLetter (deadLetteredAt env) message msg)]"

text \<open>The broker delivers \<open>m\<close> to the consumer that \<^verbatim>\<open>start\<close> registered on \<open>queue\<close>.\<close>

definition deliver ::
  "config \<Rightarrow> payment_env \<Rightarrow> string \<Rightarrow> delivery \<Rightarrow> 'a service_scheme \<Rightarrow> 'a service_scheme" where
  "deliver cfg env queue m s =
     (case map_of (start_consumers cfg env) queue of
        None \<Rightarrow> s
      | Some handler \<Rightarrow> on_message [] handler (Inr ()) (Some m) s)"

section \<open>Runs of a client\<close>

text \<open>
  What can happen to a client: a call of one of its methods with the outcome of the
  library calls it makes, an event on its connection or channel, a pending timer that
  fires, or a delivery to one of its consumers, whose handler ends with \<open>Inr\<close> or throws.
\<close>

datatype event =
    Connect connect_env
  | ConnectionError
  | ConnectionClose
  | ChannelError
  | ChannelClose
  | TimerFires nat connect_env
  | ScheduleReconnect
  | AssertExchange "unit outcome" string string obj
  | AssertQueue "obj outcome" string obj
  | BindQueue "unit outcome" string string string obj
  | Publish send_env string string json obj
  | PublishWithHeaders send_env string json json obj
  | SendToQueue send_env string json obj
  | Consume "string outcome" string obj
  | Delivery obj "error + unit" "unit outcome" "delivery option"
  | CancelConsumer "unit outcome" string
  | Close close_env

fun step :: "config \<Rightarrow> 'a client_scheme \<Rightarrow> event \<Rightarrow> 'a client_scheme" where
  "step cfg s (Connect env) = snd (connect cfg env s)"
| "step cfg s ConnectionError = on_connection_error s"
| "step cfg s ConnectionClose = on_connection_close cfg s"
| "step cfg s ChannelError = on_channel_error s"
| "step cfg s ChannelClose = on_channel_close s"
| "step cfg s (TimerFires t env) = timer_fires cfg env t s"
| "step cfg s ScheduleReconnect = scheduleReconnect cfg s"
| "step cfg s (AssertExchange res exchange type options) =
     snd (assertExchange res exchange type options s)"
| "step cfg s (AssertQueue res queue options) = snd (assertQueue res queue options s)"
| "step cfg s (BindQueue res queue exchange routingKey args) =
     snd (bindQueue res queue exchange routingKey args s)"
| "step cfg s (Publish env exchange routingKey msg options) =
     snd (publish env exchange routingKey msg options s)"
| "step cfg s (PublishWithHeaders env exchange msg hdrs options) =
     snd (publishWithHeaders env exchange msg hdrs options s)"
| "step cfg s (SendToQueue env queue msg options) = snd (sendToQueue env queue msg options s)"
| "step cfg s (Consume res queue options) = snd (consume res queue options s)"
| "step cfg s (Delivery options handler_res ack_res m) =
     on_message options (\<lambda>content msg s'. (handler_res, s')) ack_res m s"
| "step cfg s (CancelConsumer res queue) = snd (cancelConsumer res queue s)"
| "step cfg s (Close env) = snd (close env s)"

definition run :: "config \<Rightarrow> event list \<Rightarrow> 'a client_scheme \<Rightarrow> 'a client_scheme" where
  "run cfg evs s = foldl (step cfg) s evs"

text \<open>
  The runtime's pending timers are exactly the handle stored in \<^verbatim>\<open>reconnectTimer\<close>, if
  there is one.
\<close>

definition timer_inv :: "'a client_scheme \<Rightarrow> bool" where
  "timer_inv s =
     (map fst (timers s) = (case reconnectTimer s of None \<Rightarrow> [] | Some t \<Rightarrow> [t]))"

section \<open>Sample inputs\<close>

text \<open>Concrete environments, requests and deliveries at which the theorems are evaluated.\<close>

definition ok_connect :: connect_env where
  "ok_connect = \<lparr>amqp_connect = Inr 1, create_channel = Inr 1, prefetch = Inr ()\<rparr>"

definition refused_connect :: connect_env where
  "refused_connect =
     \<lparr>amqp_connect = Inl ''ECONNREFUSED'', create_channel = Inr 1, prefetch = Inr ()\<rparr>"

definition send_ok :: send_env where
  "send_ok = \<lparr>now = 1000, id_now = 1000, id_rand = ''k3x9q2m1z'', accepted = Inr True\<rparr>"

definition send_full :: send_env where
  "send_full = \<lparr>now = 1000, id_now = 1000, id_rand = ''k3x9q2m1z'', accepted = Inr False\<rparr>"

text \<open>A send on a channel that has been closed: amqplib throws.\<close>

definition send_closed :: send_env where
  "send_closed =
     \<lparr>now = 1000, id_now = 1000, id_rand = ''k3x9q2m1z'', accepted = Inl ''Channel closed''\<rparr>"

text \<open>
  A client that connected and then lost its connection: the connection and the channel
  have both emitted \<^verbatim>\<open>'error'\<close> and \<^verbatim>\<open>'close'\<close>.
\<close>

definition lost_client :: client where
  "lost_client =
     run default_config
       [Connect ok_connect, ConnectionError, ConnectionClose, ChannelError, ChannelClose]
       (new_client ''order-service'')"

text \<open>A client that connected, registered a consumer and then lost its connection.\<close>

definition lost_consumer :: client where
  "lost_consumer =
     run default_config
       [Connect ok_connect, Consume (Inr ''amq.ctag-1'') ''payments.process'' [],
        ConnectionClose, ChannelClose]
       (new_client ''payment-service'')"

text \<open>A payment service whose \<^verbatim>\<open>connect()\<close> has succeeded.\<close>

definition connected_service :: service where
  "connected_service = snd (connect default_config ok_connect new_service)"

text \<open>A run of \<^verbatim>\<open>processPayment\<close> in which the gateway times out (\<^verbatim>\<open>Math.random()\<close> is 0.1).\<close>

definition gateway_down :: payment_env where
  "gateway_down =
     \<lparr>draw = 0.1, txn_now = 1000, txn_rand = ''a1b2c3d4e'', txn_iso = ''2024-01-01T00:00:00.000Z'',
      processedAt = ''2024-01-01T00:00:00.000Z'',
      success_iso = ''2024-01-01T00:00:00.000Z'', success_send = send_ok,
      shipping_iso = ''2024-01-01T00:00:00.000Z'', shipping_send = send_ok,
      failedAt = ''2024-01-01T00:00:00.000Z'',
      failure_iso = ''2024-01-01T00:00:00.000Z'', failure_send = send_ok,
      deadLetteredAt = ''2024-01-01T00:00:00.000Z''\<rparr>"

definition payment_request :: obj where
  "payment_request =
     [(''orderId'', JStr ''ORD-1''), (''userId'', JStr ''u1''), (''amount'', JNum 100),
      (''method'', JStr ''credit_card'')]"

text \<open>The request as the order service sends it: no headers, first delivery.\<close>

definition first_delivery :: delivery where
  "first_delivery =
     \<lparr>body = Some payment_request, headers = None, deliveryTag = 1, redelivered = False\<rparr>"

text \<open>The request carrying attempt count 3, delivered for the first time.\<close>

definition exhausted_delivery :: delivery where
  "exhausted_delivery =
     \<lparr>body = Some payment_request, headers = Some [(''x-retry-count'', 3)], deliveryTag = 1,
      redelivered = False\<rparr>"

section \<open>Properties\<close>

lemma emit_frame [simp]:
  "channel (emit c s) = channel s" "connection (emit c s) = connection s"
  "isConnected (emit c s) = isConnected s" "reconnectTimer (emit c s) = reconnectTimer s"
  "consumers (emit c s) = consumers s" "timers (emit c s) = timers s"
  "next_timer (emit c s) = next_timer s" "calls (emit c s) = calls s @ [c]"
  "serviceName (emit c s) = serviceName s"
  by (simp_all add: emit_def)

lemma scheduleReconnect_frame [simp]:
  "channel (scheduleReconnect cfg s) = channel s"
  "connection (scheduleReconnect cfg s) = connection s"
  "isConnected (scheduleReconnect cfg s) = isConnected s"
  "consumers (scheduleReconnect cfg s) = consumers s"
  "calls (scheduleReconnect cfg s) = calls s"
  "serviceName (scheduleReconnect cfg s) = serviceName s"
  by (simp_all add: scheduleReconnect_def split: option.splits)

lemma logError_simps [simp]:
  "logError ChannelNotInitialized = Inr ()"
  "logError (Raised m) = Inr ()"
  "logError Nullish = Inl (Raised ''TypeError'')"
  by (simp_all add: logError_def)

lemma show_nat_1000: "show_nat 1000 = ''1000''"
  by code_simp

subsection \<open>Precondition errors\<close>

text \<open>
  C4 (as amended). While the \<^verbatim>\<open>channel\<close> field is \<^verbatim>\<open>null\<close>, that is before any
  \<^verbatim>\<open>connect()\<close> has created a channel, every topology, publish and consume method
  rejects with the "Channel not initialized" error and leaves the client as it was: in
  particular no call is made on the library.
\<close>

theorem uninitialised_channel_rejects:
  assumes "channel s = None"
  shows "assertExchange r1 exchange type options s = (Rejected ChannelNotInitialized, s)
       \<and> assertQueue r2 queue options s = (Rejected ChannelNotInitialized, s)
       \<and> bindQueue r3 queue exchange routingKey args s = (Rejected ChannelNotInitialized, s)
       \<and> publish env exchange routingKey msg options s = (Rejected ChannelNotInitialized, s)
       \<and> publishWithHeaders env exchange msg hdrs options s
           = (Rejected ChannelNotInitialized, s)
       \<and> sendToQueue env queue msg options s = (Rejected ChannelNotInitialized, s)
       \<and> consume r4 queue options s = (Rejected ChannelNotInitialized, s)"
  using assms
  by (simp add: assertExchange_def assertQueue_def bindQueue_def publish_def
      publishWithHeaders_def sendToQueue_def consume_def)

theorem uninitialised_channel_rejects_witness:
  "channel (new_client ''order-service'') = None
   \<and> publish send_ok ''orders.fanout'' [] (JObj []) [] (new_client ''order-service'')
       = (Rejected ChannelNotInitialized, new_client ''order-service'')
   \<and> calls (snd (consume (Inr ''ctag'') ''orders.high'' [] (new_client ''order-service''))) = []"
proof -
  have h: "channel (new_client ''order-service'') = None"
    by (simp add: new_client_def)
  from uninitialised_channel_rejects [OF h, where env = send_ok
      and exchange = "''orders.fanout''" and routingKey = "[]" and msg = "JObj []"
      and options = "[]" and ?r4.0 = "Inr ''ctag''" and queue = "''orders.high''"]
  show ?thesis using h by (simp add: new_client_def)
qed

text \<open>
  C4 (where the claim as stated fails). The guard tests the field, not the channel. On a
  client whose connection and channel have closed after a successful \<^verbatim>\<open>connect()\<close>, no
  live channel exists and \<^verbatim>\<open>isHealthy()\<close> is \<^verbatim>\<open>false\<close>, yet \<^verbatim>\<open>publish\<close> does not reject
  with "Channel not initialized": it calls \<^verbatim>\<open>publish\<close> on the closed channel and rejects
  with the error that call throws.
\<close>

theorem closed_channel_not_rejected:
  "isHealthy lost_client = False
   \<and> fst (publish send_closed ''orders.fanout'' [] (JObj []) [] lost_client)
       = Rejected (Raised ''Channel closed'')
   \<and> calls (snd (publish send_closed ''orders.fanout'' [] (JObj []) [] lost_client))
       = calls lost_client @
         [PublishCall ''orders.fanout'' [] (JObj [])
            [(''persistent'', JBool True), (''contentType'', JStr ''application/json''),
             (''timestamp'', JNum 1000),
             (''messageId'', JStr ''order-service-1000-k3x9q2m1z'')]]"
  by (simp add: lost_client_def run_def connect_def connect_try_def ok_connect_def Let_def
      on_connection_error_def on_connection_close_def on_channel_error_def
      on_channel_close_def isHealthy_def new_client_def publish_def send_closed_def
      send_defaults_def generateMessageId_def AList.merge_def show_nat_1000)

subsection \<open>Connecting\<close>

text \<open>
  C5. \<^verbatim>\<open>connect()\<close> always resolves to \<^verbatim>\<open>true\<close> or \<^verbatim>\<open>false\<close> and never rejects. When it
  resolves to \<^verbatim>\<open>true\<close>, the connection and the channel the library returned are stored,
  the client is marked connected, and the library has been asked, in this order, to
  connect, to create one channel and to set its prefetch to 1. When it resolves to
  \<^verbatim>\<open>false\<close>, a reconnect timer is pending: the one that already was, or else a new one
  with the configured delay.
\<close>

theorem connect_returns_result:
  "(case connect cfg env s of
      (p, s') \<Rightarrow>
        (p = Resolved True \<or> p = Resolved False)
      \<and> (p = Resolved True \<longrightarrow>
            (\<exists>conn ch. amqp_connect env = Inr conn \<and> connection s' = Some conn
                     \<and> create_channel env = Inr ch \<and> channel s' = Some ch)
          \<and> isConnected s'
          \<and> calls s' = calls s @ [AmqpConnect (amqpUrl cfg) (heartbeat cfg),
                                  CreateChannel, Prefetch 1])
      \<and> (p = Resolved False \<longrightarrow>
            reconnectTimer s' \<noteq> None
          \<and> (reconnectTimer s = None \<longrightarrow>
                reconnectTimer s' = Some (next_timer s)
              \<and> timers s' = timers s @ [(next_timer s, reconnectInterval cfg)])))"
  by (auto simp add: connect_def connect_try_def Let_def scheduleReconnect_def
      split: sum.splits option.splits)

theorem connect_returns_result_witness:
  "fst (connect default_config ok_connect (new_client ''payment-service'')) = Resolved True
   \<and> channel (snd (connect default_config ok_connect (new_client ''payment-service''))) = Some 1
   \<and> fst (connect default_config refused_connect (new_client ''payment-service''))
       = Resolved False
   \<and> timers (snd (connect default_config refused_connect (new_client ''payment-service'')))
       = [(0, 5000)]"
proof -
  have a: "fst (connect default_config ok_connect (new_client ''payment-service''))
             = Resolved True"
    by (simp add: connect_def connect_try_def ok_connect_def Let_def)
  have b: "fst (connect default_config refused_connect (new_client ''payment-service''))
             = Resolved False"
    by (simp add: connect_def connect_try_def refused_connect_def Let_def)
  have c: "reconnectTimer (new_client ''payment-service'') = None"
    "timers (new_client ''payment-service'') = []"
    "next_timer (new_client ''payment-service'') = 0"
    by (simp_all add: new_client_def)
  from connect_returns_result [where cfg = default_config and env = ok_connect
      and s = "new_client ''payment-service''"]
    connect_returns_result [where cfg = default_config and env = refused_connect
      and s = "new_client ''payment-service''"]
    a b c
  show ?thesis
    by (auto simp add: ok_connect_def default_config_def split: prod.splits)
qed

lemma connected_service_channel: "channel connected_service = Some 1"
  by (simp add: connected_service_def connect_def connect_try_def ok_connect_def Let_def)

subsection \<open>Rejecting a failed message\<close>

text \<open>
  A registration made without \<^verbatim>\<open>noAck\<close> whose handler throws an error object on a
  delivery: the callback makes exactly one further channel call,
  \<^verbatim>\<open>nack(msg, false, requeue)\<close>, where \<open>requeue\<close> is the negation of the delivery's
  \<open>redelivered\<close> flag.
\<close>

lemma handler_error_nack:
  assumes "\<not> truthy (map_of (AList.merge [(''noAck'', JBool False)] options) ''noAck'')"
    and "body msg = Some content"
    and "handler content msg s = (Inl e, s1)"
    and "e \<noteq> Nullish"
    and "channel s1 \<noteq> None"
  shows "on_message options handler ack_res (Some msg) s
           = emit (NackCall (deliveryTag msg) False (\<not> redelivered msg)) s1"
  using assms
  by (cases e) (auto simp add: on_message_def on_message_try_def channel_call_def Let_def)

text \<open>
  C3 (what the code does where the claim fails). A consumer registered without \<^verbatim>\<open>noAck\<close>
  gets a first delivery and its handler rejects with \<^verbatim>\<open>undefined\<close>. The \<^verbatim>\<open>catch\<close> block
  calls \<^verbatim>\<open>logError\<close>, which throws on reading \<^verbatim>\<open>error.message\<close>, and the callback ends
  without any channel call: the message is neither rejected nor acknowledged. The same
  delivery with a handler that throws an error object is rejected with requeue, and
  without requeue once it is marked redelivered.
\<close>

theorem nullish_throw_not_rejected:
  "on_message [] (\<lambda>content msg s. (Inl Nullish, s)) (Inr ()) (Some first_delivery)
     connected_service
     = connected_service
   \<and> calls (on_message [] (\<lambda>content msg s. (Inl (Raised ''boom''), s)) (Inr ())
            (Some first_delivery) connected_service)
     = calls connected_service @ [NackCall 1 False True]
   \<and> calls (on_message [] (\<lambda>content msg s. (Inl (Raised ''boom''), s)) (Inr ())
            (Some (first_delivery\<lparr>redelivered := True\<rparr>)) connected_service)
     = calls connected_service @ [NackCall 1 False False]"
  by (simp add: on_message_def on_message_try_def channel_call_def Let_def
      first_delivery_def connected_service_channel AList.merge_def)

subsection \<open>Publishing\<close>

lemma map_of_merge:
  "map_of (AList.merge defaults options) k
     = (case map_of options k of Some v \<Rightarrow> Some v | None \<Rightarrow> map_of defaults k)"
  by (simp add: merge_conv' map_add_def)

text \<open>
  C7. \<^verbatim>\<open>publish\<close> on a client with a channel, when the channel's \<^verbatim>\<open>publish\<close> returns the
  flag \<open>b\<close>. The channel is handed the message with properties in which \<^verbatim>\<open>persistent\<close>
  is \<^verbatim>\<open>true\<close>, \<^verbatim>\<open>contentType\<close> is \<^verbatim>\<open>application/json\<close>, \<^verbatim>\<open>timestamp\<close> is the clock
  reading and \<^verbatim>\<open>messageId\<close> is the identifier generated for this call (service name,
  clock reading and random suffix, joined by dashes), unless \<open>options\<close> has that
  property, whose value then stands; every property of \<open>options\<close> is passed on and
  nothing else is added. When the
  channel accepted the message the call has resolved, to the \<^verbatim>\<open>messageId\<close> property that
  was handed over; when it reported a full buffer the call is pending and the next
  \<^verbatim>\<open>'drain'\<close> event resolves it to that same value.
\<close>

theorem publish_metadata:
  assumes "channel s \<noteq> None" and "accepted env = Inr b"
  shows "(case publish env exchange routingKey msg options s of
            (p, s') \<Rightarrow>
              (let props = AList.merge (send_defaults env s) options
               in calls s' = calls s @ PublishCall exchange routingKey msg props
                                       # (if b then [] else [OnceCall ''drain''])
                \<and> map_of props ''persistent''
                    = Some (case map_of options ''persistent'' of
                              Some v \<Rightarrow> v | None \<Rightarrow> JBool True)
                \<and> map_of props ''contentType''
                    = Some (case map_of options ''contentType'' of
                              Some v \<Rightarrow> v | None \<Rightarrow> JStr ''application/json'')
                \<and> map_of props ''timestamp''
                    = Some (case map_of options ''timestamp'' of
                              Some v \<Rightarrow> v | None \<Rightarrow> JNum (int (now env)))
                \<and> map_of props ''messageId''
                    = Some (case map_of options ''messageId'' of
                              Some v \<Rightarrow> v
                            | None \<Rightarrow>
                                JStr (serviceName s @ ''-'' @ show_nat (id_now env) @ ''-'' @
                                      id_rand env))
                \<and> (\<forall>k v. map_of options k = Some v \<longrightarrow> map_of props k = Some v)
                \<and> (\<forall>k. map_of options k = None
                         \<and> k \<notin> {''persistent'', ''contentType'', ''timestamp'', ''messageId''}
                         \<longrightarrow> map_of props k = None)
                \<and> p = (if b then Resolved (map_of props ''messageId'')
                        else AwaitDrain (Resolved (map_of props ''messageId'')))
                \<and> notify p DrainSignal = Resolved (map_of props ''messageId'')))"
  using assms
  by (auto simp add: publish_def Let_def map_of_merge send_defaults_def generateMessageId_def
      split: option.splits)

theorem publish_metadata_witness:
  "publish send_ok ''orders.fanout'' [] (JObj payment_request) [] connected_service
     = (Resolved (Some (JStr ''payment-service-1000-k3x9q2m1z'')),
        emit (PublishCall ''orders.fanout'' [] (JObj payment_request)
                [(''persistent'', JBool True), (''contentType'', JStr ''application/json''),
                 (''timestamp'', JNum 1000),
                 (''messageId'', JStr ''payment-service-1000-k3x9q2m1z'')])
          connected_service)
   \<and> fst (publish send_full ''orders.fanout'' [] (JObj payment_request)
             [(''messageId'', JStr ''m-1''), (''persistent'', JBool False)]
             connected_service)
     = AwaitDrain (Resolved (Some (JStr ''m-1'')))"
proof -
  have ch: "channel connected_service \<noteq> None"
    by (simp add: connected_service_channel)
  have a: "accepted send_ok = Inr True"
    by (simp add: send_ok_def)
  have b: "accepted send_full = Inr False"
    by (simp add: send_full_def)
  have n: "serviceName connected_service = ''payment-service''"
    by (simp add: connected_service_def connect_def connect_try_def ok_connect_def Let_def
        new_service_def new_client_def client.extend_def)
  have i: "id_now send_ok = 1000" "id_rand send_ok = ''k3x9q2m1z''" "now send_ok = 1000"
    by (simp_all add: send_ok_def)
  obtain p1 s1 where
    r1: "publish send_ok ''orders.fanout'' [] (JObj payment_request) [] connected_service
           = (p1, s1)"
    by (cases "publish send_ok ''orders.fanout'' [] (JObj payment_request) []
                 connected_service")
  obtain p2 s2 where
    r2: "publish send_full ''orders.fanout'' [] (JObj payment_request)
           [(''messageId'', JStr ''m-1''), (''persistent'', JBool False)] connected_service
           = (p2, s2)"
    by (cases "publish send_full ''orders.fanout'' [] (JObj payment_request)
                 [(''messageId'', JStr ''m-1''), (''persistent'', JBool False)]
                 connected_service")
  from publish_metadata [OF ch a, where exchange = "''orders.fanout''" and routingKey = "[]"
      and msg = "JObj payment_request" and options = "[]"]
  have p1: "p1 = Resolved (Some (JStr ''payment-service-1000-k3x9q2m1z''))"
    unfolding r1 by (simp add: Let_def n i show_nat_1000)
  from publish_metadata [OF ch b, where exchange = "''orders.fanout''" and routingKey = "[]"
      and msg = "JObj payment_request"
      and options = "[(''messageId'', JStr ''m-1''), (''persistent'', JBool False)]"]
  have p2: "p2 = AwaitDrain (Resolved (Some (JStr ''m-1'')))"
    unfolding r2 by (simp add: Let_def)
  have "s1 = emit (PublishCall ''orders.fanout'' [] (JObj payment_request)
                     [(''persistent'', JBool True),
                      (''contentType'', JStr ''application/json''),
                      (''timestamp'', JNum 1000),
                      (''messageId'', JStr ''payment-service-1000-k3x9q2m1z'')])
               connected_service"
    using r1
    by (simp add: publish_def connected_service_channel a send_defaults_def
        generateMessageId_def n i show_nat_1000 AList.merge_def Let_def)
  then show ?thesis
    using p1 p2 r1 r2 by simp
qed

lemma notify_other: "DrainSignal \<noteq> sig \<Longrightarrow> notify p sig = p"
  by (cases p; cases sig) simp_all

lemma no_drain_no_progress: "DrainSignal \<notin> set sigs \<Longrightarrow> foldl notify p sigs = p"
  by (induction sigs arbitrary: p) (simp_all add: notify_other)

text \<open>
  C8. \<^verbatim>\<open>publish\<close> and \<^verbatim>\<open>sendToQueue\<close> when the channel's send returns \<^verbatim>\<open>false\<close>: the message
  has been handed to the channel, once, and a one-shot listener for \<^verbatim>\<open>'drain'\<close> has been
  registered; the call is pending, it stays pending through every sequence of channel
  events that has no \<^verbatim>\<open>'drain'\<close> in it, and a \<^verbatim>\<open>'drain'\<close> event resolves it to the message
  identifier.
\<close>

theorem buffer_full_waits_for_drain:
  assumes "channel s \<noteq> None" and "accepted env = Inr False"
  shows "(case publish env exchange routingKey msg options s of
            (p, s') \<Rightarrow>
              calls s' = calls s @ [PublishCall exchange routingKey msg
                                      (AList.merge (send_defaults env s) options),
                                    OnceCall ''drain'']
            \<and> \<not> settled p
            \<and> (DrainSignal \<notin> set sigs \<longrightarrow> \<not> settled (foldl notify p sigs))
            \<and> notify p DrainSignal
                = Resolved (map_of (AList.merge (send_defaults env s) options) ''messageId''))
       \<and> (case sendToQueue env queue msg options s of
            (p, s') \<Rightarrow>
              calls s' = calls s @ [SendToQueueCall queue msg
                                      (AList.merge (send_defaults env s) options),
                                    OnceCall ''drain'']
            \<and> \<not> settled p
            \<and> (DrainSignal \<notin> set sigs \<longrightarrow> \<not> settled (foldl notify p sigs))
            \<and> notify p DrainSignal
                = Resolved (map_of (AList.merge (send_defaults env s) options) ''messageId''))"
  using assms
  by (auto simp add: publish_def sendToQueue_def Let_def no_drain_no_progress
      split: option.splits)

theorem buffer_full_waits_for_drain_witness:
  "\<not> settled (foldl notify
        (fst (publish send_full ''orders.fanout'' [] (JObj payment_request) []
                connected_service))
        [ErrorSignal, CloseSignal])
   \<and> settled (foldl notify
        (fst (publish send_full ''orders.fanout'' [] (JObj payment_request) []
                connected_service))
        [ErrorSignal, DrainSignal])
   \<and> \<not> settled (fst (sendToQueue send_full ''payments.process'' (JObj payment_request) []
                       connected_service))"
proof -
  have ch: "channel connected_service \<noteq> None"
    by (simp add: connected_service_channel)
  have b: "accepted send_full = Inr False"
    by (simp add: send_full_def)
  from buffer_full_waits_for_drain [OF ch b, where exchange = "''orders.fanout''"
      and routingKey = "[]" and msg = "JObj payment_request" and options = "[]"
      and queue = "''payments.process''" and sigs = "[ErrorSignal, CloseSignal]"]
  show ?thesis
    by (auto split: prod.splits)
qed

subsection \<open>Reconnect timers and the channel field along a run\<close>

lemma scheduleReconnect_inv: "timer_inv s \<Longrightarrow> timer_inv (scheduleReconnect cfg s)"
  by (simp add: timer_inv_def scheduleReconnect_def split: option.splits)

lemma connect_try_timers:
  "timers (snd (connect_try cfg env s)) = timers s"
  "reconnectTimer (snd (connect_try cfg env s)) = reconnectTimer s"
  by (simp_all add: connect_try_def Let_def split: sum.splits)

lemma connect_inv: "timer_inv s \<Longrightarrow> timer_inv (snd (connect cfg env s))"
proof -
  assume a: "timer_inv s"
  have b: "timer_inv (snd (connect_try cfg env s))"
    using a connect_try_timers [of cfg env s] by (simp add: timer_inv_def)
  show ?thesis
    using b by (cases "connect_try cfg env s") (auto simp add: connect_def scheduleReconnect_inv split: sum.splits)
qed

lemma timer_fires_inv: "timer_inv s \<Longrightarrow> timer_inv (timer_fires cfg env t s)"
proof -
  assume a: "timer_inv s"
  show ?thesis
  proof (cases "t \<in> fst ` set (timers s)")
    case False
    then show ?thesis using a by (simp add: timer_fires_def)
  next
    case True
    with a have "reconnectTimer s = Some t" "map fst (timers s) = [t]"
      by (auto simp add: timer_inv_def split: option.splits)
    then have "filter (\<lambda>p. fst p \<noteq> t) (timers s) = []"
      by (cases "timers s") auto
    then have "timer_inv (s\<lparr>timers := filter (\<lambda>p. fst p \<noteq> t) (timers s), reconnectTimer := None\<rparr>)"
      by (simp add: timer_inv_def)
    then show ?thesis using True by (simp add: timer_fires_def connect_inv)
  qed
qed

lemma cancelConsumer_frame [simp]:
  "timers (snd (cancelConsumer res queue s)) = timers s"
  "reconnectTimer (snd (cancelConsumer res queue s)) = reconnectTimer s"
  "channel (snd (cancelConsumer res queue s)) = channel s"
  by (simp_all add: cancelConsumer_def Let_def split: option.splits sum.splits)

lemma cancel_all_frame:
  "timers (snd (cancel_all env queues s)) = timers s
   \<and> reconnectTimer (snd (cancel_all env queues s)) = reconnectTimer s
   \<and> channel (snd (cancel_all env queues s)) = channel s"
proof (induction queues arbitrary: s)
  case Nil
  show ?case by simp
next
  case (Cons q qs)
  obtain p s1 where c: "cancelConsumer (cancel_res env q) q s = (p, s1)"
    by (cases "cancelConsumer (cancel_res env q) q s")
  have f: "timers s1 = timers s" "reconnectTimer s1 = reconnectTimer s" "channel s1 = channel s"
    using cancelConsumer_frame [of "cancel_res env q" q s] c by simp_all
  show ?case
    using Cons.IH [of s1] c f by (simp split: sum.splits)
qed

lemma close_try_frame:
  "channel (snd (close_try env s)) = channel s
   \<and> reconnectTimer (snd (close_try env s)) = None
   \<and> timers (snd (close_try env s))
       = (case reconnectTimer s of
            Some t \<Rightarrow> filter (\<lambda>p. fst p \<noteq> t) (timers s) | None \<Rightarrow> timers s)"
proof -
  define s1 where "s1 = (case reconnectTimer s of
                  Some t \<Rightarrow> (clearTimeout t s)\<lparr>reconnectTimer := None\<rparr>
                | None \<Rightarrow> s)"
  have f1: "channel s1 = channel s" "reconnectTimer s1 = None"
    "timers s1 = (case reconnectTimer s of
            Some t \<Rightarrow> filter (\<lambda>p. fst p \<noteq> t) (timers s) | None \<Rightarrow> timers s)"
    by (simp_all add: s1_def clearTimeout_def split: option.splits)
  obtain r s2 where c: "cancel_all env (map fst (consumers s1)) s1 = (r, s2)"
    by (cases "cancel_all env (map fst (consumers s1)) s1")
  have f2: "channel s2 = channel s1" "reconnectTimer s2 = reconnectTimer s1"
    "timers s2 = timers s1"
    using cancel_all_frame [of env "map fst (consumers s1)" s1] c by simp_all
  have "close_try env s =
     (case (r, s2) of
           (Inl e, s2) \<Rightarrow> (Inl e, s2)
         | (Inr u, s2) \<Rightarrow>
             (case (if channel s2 \<noteq> None
                    then (channel_close env, emit ChannelCloseCall s2)
                    else (Inr (), s2)) of
                (Inl m, s3) \<Rightarrow> (Inl (Raised m), s3)
              | (Inr u, s3) \<Rightarrow>
                  (case (if connection s3 \<noteq> None
                         then (connection_close env, emit ConnectionCloseCall s3)
                         else (Inr (), s3)) of
                     (Inl m, s4) \<Rightarrow> (Inl (Raised m), s4)
                   | (Inr u, s4) \<Rightarrow> (Inr (), s4\<lparr>isConnected := False\<rparr>))))"
    unfolding close_try_def Let_def s1_def [symmetric] c by (rule refl)
  then show ?thesis
    using f1 f2 by (auto split: sum.splits if_splits)
qed

lemma close_frame:
  "channel (snd (close env s)) = channel s"
  "reconnectTimer (snd (close env s)) = None"
  "timer_inv s \<Longrightarrow> timer_inv (snd (close env s))"
proof -
  have e: "snd (close env s) = snd (close_try env s)"
    by (simp add: close_def split: prod.splits)
  show "channel (snd (close env s)) = channel s"
    and "reconnectTimer (snd (close env s)) = None"
    using close_try_frame [of env s] e by simp_all
  assume a: "timer_inv s"
  show "timer_inv (snd (close env s))"
  proof (cases "reconnectTimer s")
    case None
    then show ?thesis using a close_try_frame [of env s] e by (simp add: timer_inv_def)
  next
    case (Some t)
    with a have "map fst (timers s) = [t]" by (simp add: timer_inv_def)
    then have "filter (\<lambda>p. fst p \<noteq> t) (timers s) = []"
      by (cases "timers s") auto
    then show ?thesis using Some close_try_frame [of env s] e by (simp add: timer_inv_def)
  qed
qed

lemma simple_frames [simp]:
  "timers (snd (assertExchange r1 exchange type options s)) = timers s"
  "reconnectTimer (snd (assertExchange r1 exchange type options s)) = reconnectTimer s"
  "channel (snd (assertExchange r1 exchange type options s)) = channel s"
  "timers (snd (assertQueue r2 queue options s)) = timers s"
  "reconnectTimer (snd (assertQueue r2 queue options s)) = reconnectTimer s"
  "channel (snd (assertQueue r2 queue options s)) = channel s"
  "timers (snd (bindQueue r3 queue exchange routingKey args s)) = timers s"
  "reconnectTimer (snd (bindQueue r3 queue exchange routingKey args s)) = reconnectTimer s"
  "channel (snd (bindQueue r3 queue exchange routingKey args s)) = channel s"
  "timers (snd (publish env exchange routingKey msg options s)) = timers s"
  "reconnectTimer (snd (publish env exchange routingKey msg options s)) = reconnectTimer s"
  "channel (snd (publish env exchange routingKey msg options s)) = channel s"
  "timers (snd (sendToQueue env queue msg options s)) = timers s"
  "reconnectTimer (snd (sendToQueue env queue msg options s)) = reconnectTimer s"
  "channel (snd (sendToQueue env queue msg options s)) = channel s"
  "timers (snd (consume r4 queue options s)) = timers s"
  "reconnectTimer (snd (consume r4 queue options s)) = reconnectTimer s"
  "channel (snd (consume r4 queue options s)) = channel s"
  by (simp_all add: assertExchange_def assertQueue_def bindQueue_def publish_def
      sendToQueue_def consume_def Let_def split: option.splits sum.splits)

lemma on_message_frame [simp]:
  "timers (on_message options (\<lambda>content msg s'. (handler_res, s')) ack_res m s) = timers s"
  "reconnectTimer (on_message options (\<lambda>content msg s'. (handler_res, s')) ack_res m s)
     = reconnectTimer s"
  "channel (on_message options (\<lambda>content msg s'. (handler_res, s')) ack_res m s) = channel s"
  by (simp_all add: on_message_def on_message_try_def channel_call_def Let_def
      split: option.splits sum.splits)


lemma publishWithHeaders_frame [simp]:
  "timers (snd (publishWithHeaders env exchange msg hdrs options s)) = timers s"
  "reconnectTimer (snd (publishWithHeaders env exchange msg hdrs options s)) = reconnectTimer s"
  "channel (snd (publishWithHeaders env exchange msg hdrs options s)) = channel s"
  by (simp_all add: publishWithHeaders_def)

lemma connect_channel: "channel s \<noteq> None \<Longrightarrow> channel (snd (connect cfg env s)) \<noteq> None"
  by (auto simp add: connect_def connect_try_def Let_def split: sum.splits)

lemma timer_inv_isConnected [simp]: "timer_inv (s\<lparr>isConnected := b\<rparr>) = timer_inv s"
  by (simp add: timer_inv_def)

lemma timer_inv_frame:
  "timers s' = timers s \<Longrightarrow> reconnectTimer s' = reconnectTimer s \<Longrightarrow> timer_inv s
   \<Longrightarrow> timer_inv s'"
  by (simp add: timer_inv_def)

lemma step_timer_inv:
  assumes "timer_inv s"
  shows "timer_inv (step cfg s e)"
proof (cases e)
  case (Connect env)
  then show ?thesis using assms by (simp add: connect_inv)
next
  case ConnectionError
  then show ?thesis using assms by (simp add: on_connection_error_def)
next
  case ConnectionClose
  then show ?thesis using assms by (simp add: on_connection_close_def scheduleReconnect_inv)
next
  case ChannelError
  then show ?thesis using assms by (simp add: on_channel_error_def)
next
  case ChannelClose
  then show ?thesis using assms by (simp add: on_channel_close_def)
next
  case (TimerFires t env)
  then show ?thesis using assms by (simp add: timer_fires_inv)
next
  case ScheduleReconnect
  then show ?thesis using assms by (simp add: scheduleReconnect_inv)
next
  case (Close env)
  then show ?thesis using assms by (simp add: close_frame)
qed (use assms in \<open>simp_all add: timer_inv_frame\<close>)

lemma run_timer_inv: "timer_inv s \<Longrightarrow> timer_inv (run cfg evs s)"
  unfolding run_def by (induction evs arbitrary: s) (simp_all add: step_timer_inv)

lemma step_channel:
  assumes "channel s \<noteq> None"
  shows "channel (step cfg s e) \<noteq> None"
proof (cases e)
  case (Connect env)
  then show ?thesis using connect_channel [OF assms] by simp
next
  case (TimerFires t env)
  have "channel (s\<lparr>timers := filter (\<lambda>p. fst p \<noteq> t) (timers s), reconnectTimer := None\<rparr>)
          \<noteq> None"
    using assms by simp
  from connect_channel [OF this] show ?thesis
    using TimerFires assms by (simp add: timer_fires_def)
next
  case (Close env)
  then show ?thesis using assms by (simp add: close_frame)
qed (use assms in \<open>simp_all add: on_connection_error_def on_connection_close_def
      on_channel_error_def on_channel_close_def\<close>)

lemma run_channel: "channel s \<noteq> None \<Longrightarrow> channel (run cfg evs s) \<noteq> None"
  unfolding run_def
proof (induction evs arbitrary: s)
  case Nil
  then show ?case by simp
next
  case (Cons e evs)
  from Cons.IH [OF step_channel [OF Cons.prems]] show ?case by simp
qed


lemma connect_keeps_timer:
  "reconnectTimer s = Some t \<Longrightarrow> reconnectTimer (snd (connect cfg env s)) = Some t"
  by (cases "connect_try cfg env s")
    (use connect_try_timers(2) [of cfg env s] in
      \<open>auto simp add: connect_def scheduleReconnect_def split: sum.splits\<close>)

lemma step_keeps_timer:
  assumes "timer_inv s" and "reconnectTimer s = Some t"
    and "reconnectTimer (step cfg s e) \<noteq> Some t"
  shows "(\<exists>env. e = TimerFires t env) \<or> (\<exists>env. e = Close env)"
proof (cases e)
  case (Connect env)
  then show ?thesis using assms connect_keeps_timer [of s t cfg env] by simp
next
  case (TimerFires t' env)
  show ?thesis
  proof (cases "t' \<in> fst ` set (timers s)")
    case True
    moreover have "map fst (timers s) = [t]" using assms(1,2) by (simp add: timer_inv_def)
    ultimately have "t' \<in> set [t]" by (metis set_map)
    then have "t' = t" by simp
    then show ?thesis using TimerFires by simp
  next
    case False
    then show ?thesis using TimerFires assms by (simp add: timer_fires_def)
  qed
next
  case (Close env)
  then show ?thesis by simp
qed (use assms in \<open>simp_all add: on_connection_error_def on_connection_close_def
      on_channel_error_def on_channel_close_def scheduleReconnect_def\<close>)

text \<open>
  C6. In every state a client reaches from its construction, the runtime holds at most
  one pending timer for it, namely the handle stored in \<^verbatim>\<open>reconnectTimer\<close>, and none when
  that field is \<^verbatim>\<open>null\<close>. While the field holds a handle, \<^verbatim>\<open>scheduleReconnect\<close> changes
  nothing. The field stops holding the handle \<open>t\<close> only when the timer \<open>t\<close> fires or
  when \<^verbatim>\<open>close()\<close> is called.
\<close>

theorem one_pending_reconnect_timer:
  assumes "reconnectTimer s0 = None" and "timers s0 = []" and "s = run cfg evs s0"
  shows "length (timers s) \<le> 1
       \<and> map fst (timers s) = (case reconnectTimer s of None \<Rightarrow> [] | Some t \<Rightarrow> [t])
       \<and> (reconnectTimer s \<noteq> None \<longrightarrow> scheduleReconnect cfg s = s)
       \<and> (reconnectTimer s = Some t \<and> reconnectTimer (step cfg s e) \<noteq> Some t \<longrightarrow>
            (\<exists>env. e = TimerFires t env) \<or> (\<exists>env. e = Close env))"
proof -
  have "timer_inv s0" using assms(1,2) by (simp add: timer_inv_def)
  then have inv: "timer_inv s" using assms(3) by (simp add: run_timer_inv)
  then have m: "map fst (timers s) = (case reconnectTimer s of None \<Rightarrow> [] | Some t \<Rightarrow> [t])"
    by (simp add: timer_inv_def)
  have "length (map fst (timers s)) \<le> 1"
    unfolding m by (simp split: option.splits)
  then have l: "length (timers s) \<le> 1" by simp
  have n: "reconnectTimer s \<noteq> None \<longrightarrow> scheduleReconnect cfg s = s"
    by (auto simp add: scheduleReconnect_def)
  show ?thesis using l m n step_keeps_timer [OF inv] by blast
qed


theorem one_pending_reconnect_timer_witness:
  "timers (run default_config [Connect refused_connect, ConnectionClose, ScheduleReconnect]
             (new_client ''payment-service'')) = [(0, 5000)]
   \<and> scheduleReconnect default_config
        (run default_config [Connect refused_connect, ConnectionClose, ScheduleReconnect]
           (new_client ''payment-service''))
       = run default_config [Connect refused_connect, ConnectionClose, ScheduleReconnect]
           (new_client ''payment-service'')
   \<and> reconnectTimer
        (step default_config
           (run default_config [Connect refused_connect, ConnectionClose, ScheduleReconnect]
              (new_client ''payment-service''))
           (Publish send_ok ''orders.fanout'' [] (JObj []) [])) = Some 0"
proof -
  have a: "reconnectTimer (new_client ''payment-service'') = None"
    and b: "timers (new_client ''payment-service'') = []"
    by (simp_all add: new_client_def)
  have r: "reconnectTimer
             (run default_config [Connect refused_connect, ConnectionClose, ScheduleReconnect]
                (new_client ''payment-service'')) = Some 0"
    by (simp add: run_def connect_def connect_try_def refused_connect_def Let_def
        scheduleReconnect_def on_connection_close_def new_client_def emit_def)
  have t: "timers
             (run default_config [Connect refused_connect, ConnectionClose, ScheduleReconnect]
                (new_client ''payment-service'')) = [(0, 5000)]"
    by (simp add: run_def connect_def connect_try_def refused_connect_def Let_def
        scheduleReconnect_def on_connection_close_def new_client_def emit_def
        default_config_def)
  from one_pending_reconnect_timer [OF a b refl, where cfg = default_config
      and evs = "[Connect refused_connect, ConnectionClose, ScheduleReconnect]" and t = 0
      and e = "Publish send_ok ''orders.fanout'' [] (JObj []) []"]
  show ?thesis using r t by auto
qed

lemma live_channel_no_precondition_error:
  assumes "channel s \<noteq> None"
  shows "fst (assertExchange r1 exchange type options s) \<noteq> Rejected ChannelNotInitialized"
    and "fst (assertQueue r2 queue options s) \<noteq> Rejected ChannelNotInitialized"
    and "fst (bindQueue r3 queue exchange routingKey args s) \<noteq> Rejected ChannelNotInitialized"
    and "fst (publish env exchange routingKey msg options s) \<noteq> Rejected ChannelNotInitialized"
    and "fst (publishWithHeaders env exchange msg hdrs options s)
           \<noteq> Rejected ChannelNotInitialized"
    and "fst (sendToQueue env queue msg options s) \<noteq> Rejected ChannelNotInitialized"
    and "fst (consume r4 queue options s) \<noteq> Rejected ChannelNotInitialized"
  using assms
  by (auto simp add: assertExchange_def assertQueue_def bindQueue_def publish_def
      publishWithHeaders_def sendToQueue_def consume_def Let_def
      split: sum.splits if_splits)

text \<open>
  C10. After a \<^verbatim>\<open>connect()\<close> that resolved to \<^verbatim>\<open>true\<close>, whatever happens next to the client
  (method calls, connection and channel events, timers, deliveries, \<^verbatim>\<open>close()\<close>), the
  \<^verbatim>\<open>channel\<close> field stays set and none of the topology, publish and consume methods
  rejects with the "Channel not initialized" error. This also holds right after a
  connection error or close event, when \<^verbatim>\<open>isHealthy()\<close> is \<^verbatim>\<open>false\<close>.
\<close>

theorem channel_field_never_cleared:
  assumes "fst (connect cfg env0 s0) = Resolved True"
    and "s = run cfg evs (snd (connect cfg env0 s0))"
  shows "channel s \<noteq> None
       \<and> fst (assertExchange r1 exchange type options s) \<noteq> Rejected ChannelNotInitialized
       \<and> fst (assertQueue r2 queue options s) \<noteq> Rejected ChannelNotInitialized
       \<and> fst (bindQueue r3 queue exchange routingKey args s) \<noteq> Rejected ChannelNotInitialized
       \<and> fst (publish env exchange routingKey msg options s) \<noteq> Rejected ChannelNotInitialized
       \<and> fst (publishWithHeaders env exchange msg hdrs options s)
           \<noteq> Rejected ChannelNotInitialized
       \<and> fst (sendToQueue env queue msg options s) \<noteq> Rejected ChannelNotInitialized
       \<and> fst (consume r4 queue options s) \<noteq> Rejected ChannelNotInitialized
       \<and> \<not> isHealthy (step cfg s ConnectionError)
       \<and> \<not> isHealthy (step cfg s ConnectionClose)
       \<and> channel (step cfg s ConnectionError) \<noteq> None
       \<and> channel (step cfg s ConnectionClose) \<noteq> None"
proof -
  have "channel (snd (connect cfg env0 s0)) \<noteq> None"
    using assms(1)
    by (auto simp add: connect_def connect_try_def Let_def split: sum.splits)
  then have ch: "channel s \<noteq> None"
    using assms(2) by (simp add: run_channel)
  have h: "\<not> isHealthy (step cfg s ConnectionError)"
    "\<not> isHealthy (step cfg s ConnectionClose)"
    by (simp_all add: isHealthy_def on_connection_error_def on_connection_close_def)
  show ?thesis
    by (intro conjI ch h live_channel_no_precondition_error [OF ch] step_channel [OF ch])
qed

theorem channel_field_never_cleared_witness:
  "fst (connect default_config ok_connect (new_client ''payment-service'')) = Resolved True
   \<and> isHealthy (run default_config [ConnectionError, ConnectionClose]
                 (snd (connect default_config ok_connect (new_client ''payment-service''))))
       = False
   \<and> fst (publish send_ok ''orders.fanout'' [] (JObj []) []
            (run default_config [ConnectionError, ConnectionClose]
               (snd (connect default_config ok_connect (new_client ''payment-service'')))))
       \<noteq> Rejected ChannelNotInitialized"
proof -
  have a: "fst (connect default_config ok_connect (new_client ''payment-service''))
             = Resolved True"
    by (simp add: connect_def connect_try_def ok_connect_def Let_def)
  have h: "isHealthy (run default_config [ConnectionError, ConnectionClose]
                 (snd (connect default_config ok_connect (new_client ''payment-service''))))
       = False"
    by (simp add: run_def isHealthy_def on_connection_error_def on_connection_close_def)
  from channel_field_never_cleared [OF a refl, where evs = "[ConnectionError, ConnectionClose]"
      and env = send_ok and exchange = "''orders.fanout''" and routingKey = "[]"
      and msg = "JObj []" and options = "[]"]
  show ?thesis using a h by simp
qed

subsection \<open>Cancelling a consumer\<close>

lemma connect_consumers [simp]: "consumers (snd (connect cfg env s)) = consumers s"
  by (simp add: connect_def connect_try_def Let_def split: sum.splits)

lemma close_empty_registry:
  "consumers s = [] \<Longrightarrow> consumers (snd (close env s)) = []"
  by (auto simp add: close_def close_try_def clearTimeout_def Let_def
      split: option.splits sum.splits prod.splits if_splits)

lemma step_without_channel:
  assumes "channel s = None" and "consumers s = []"
  shows "consumers (step cfg s e) = []"
proof (cases e)
  case (TimerFires t env)
  then show ?thesis using assms by (simp add: timer_fires_def)
next
  case (Close env)
  then show ?thesis using assms by (simp add: close_empty_registry)
next
  case (Delivery options handler_res ack_res m)
  then show ?thesis using assms
    by (simp add: on_message_def on_message_try_def channel_call_def Let_def
        split: option.splits sum.splits)
qed (use assms in \<open>simp_all add: on_connection_error_def on_connection_close_def
      on_channel_error_def on_channel_close_def assertExchange_def assertQueue_def
      bindQueue_def publish_def publishWithHeaders_def sendToQueue_def consume_def
      cancelConsumer_def\<close>)

lemma step_registry:
  assumes "consumers s = [] \<or> channel s \<noteq> None"
  shows "consumers (step cfg s e) = [] \<or> channel (step cfg s e) \<noteq> None"
proof (cases "channel s = None")
  case True
  with assms have "consumers s = []" by simp
  from step_without_channel [OF True this] show ?thesis by simp
next
  case False
  from step_channel [OF False] show ?thesis by simp
qed

lemma run_registry:
  "consumers s = [] \<or> channel s \<noteq> None \<Longrightarrow>
   consumers (run cfg evs s) = [] \<or> channel (run cfg evs s) \<noteq> None"
  unfolding run_def
proof (induction evs arbitrary: s)
  case Nil
  then show ?case by simp
next
  case (Cons e evs)
  from Cons.IH [OF step_registry [OF Cons.prems]] show ?case by simp
qed

text \<open>
  C9 (where the claim as stated fails). A client has a consumer registered on
  \<^verbatim>\<open>payments.process\<close> and has lost its connection, so that the channel's \<^verbatim>\<open>cancel\<close>
  fails. \<^verbatim>\<open>cancelConsumer\<close> then rejects with that error and the registration is still in
  the registry: the entry is deleted only after the awaited cancel has completed.
\<close>

theorem failed_cancel_keeps_registration:
  "map_of (consumers lost_consumer) ''payments.process'' = Some ''amq.ctag-1''
   \<and> fst (cancelConsumer (Inl ''Channel closed'') ''payments.process'' lost_consumer)
       = Rejected (Raised ''Channel closed'')
   \<and> map_of (consumers
               (snd (cancelConsumer (Inl ''Channel closed'') ''payments.process''
                       lost_consumer)))
         ''payments.process''
       = Some ''amq.ctag-1''
   \<and> calls (snd (cancelConsumer (Inl ''Channel closed'') ''payments.process'' lost_consumer))
       = calls lost_consumer @ [CancelCall ''amq.ctag-1'']"
  by (simp add: lost_consumer_def run_def connect_def connect_try_def ok_connect_def
      consume_def on_connection_close_def on_channel_close_def cancelConsumer_def
      new_client_def Let_def)

text \<open>
  C9 (as amended). \<^verbatim>\<open>cancelConsumer(queue)\<close> on a client in any state it reaches from its
  construction. When the registry holds a consumer tag for the queue (a non-empty
  string, as the broker issues them), the tag is cancelled on the channel; if the
  channel completes the cancel, the queue's entry is removed, every other entry is kept
  and the call resolves; if the channel's cancel fails, the call rejects with that error
  and the registry is left as it was. When the registry has no entry for the queue (or
  an empty tag, which JavaScript takes for none), the call resolves and changes nothing,
  whatever the channel would have answered.
\<close>

theorem cancelConsumer_removes:
  assumes "consumers s0 = []" and "s = run cfg evs s0"
  shows "(map_of (consumers s) queue = Some tag \<and> tag \<noteq> [] \<longrightarrow>
            cancelConsumer (Inr ()) queue s
              = (Resolved (),
                 (emit (CancelCall tag) s)\<lparr>consumers := AList.delete queue (consumers s)\<rparr>)
          \<and> calls (snd (cancelConsumer res queue s)) = calls s @ [CancelCall tag]
          \<and> (\<forall>m. cancelConsumer (Inl m) queue s
                    = (Rejected (Raised m), emit (CancelCall tag) s))
          \<and> map_of (consumers (snd (cancelConsumer (Inr ()) queue s))) queue = None
          \<and> (\<forall>q. q \<noteq> queue \<longrightarrow>
                map_of (consumers (snd (cancelConsumer (Inr ()) queue s))) q
                  = map_of (consumers s) q))
       \<and> (map_of (consumers s) queue = None \<or> map_of (consumers s) queue = Some [] \<longrightarrow>
            cancelConsumer res queue s = (Resolved (), s))"
proof -
  have "consumers s = [] \<or> channel s \<noteq> None"
    using assms run_registry [of s0 cfg evs] by simp
  then have "map_of (consumers s) queue = Some tag \<longrightarrow> channel s \<noteq> None"
    by auto
  then show ?thesis
    by (auto simp add: cancelConsumer_def Let_def delete_conv' split: sum.splits)
qed

theorem cancelConsumer_removes_witness:
  "consumers (snd (cancelConsumer (Inr ()) ''payments.process''
       (run default_config
          [Connect ok_connect, Consume (Inr ''amq.ctag-1'') ''payments.process'' []]
          (new_client ''payment-service'')))) = []
   \<and> cancelConsumer (Inr ()) ''payments.retry''
        (run default_config
          [Connect ok_connect, Consume (Inr ''amq.ctag-1'') ''payments.process'' []]
          (new_client ''payment-service''))
       = (Resolved (),
          run default_config
            [Connect ok_connect, Consume (Inr ''amq.ctag-1'') ''payments.process'' []]
            (new_client ''payment-service''))"
proof -
  have c: "consumers (new_client ''payment-service'') = []"
    by (simp add: new_client_def)
  have r: "consumers (run default_config
          [Connect ok_connect, Consume (Inr ''amq.ctag-1'') ''payments.process'' []]
          (new_client ''payment-service'')) = [(''payments.process'', ''amq.ctag-1'')]"
    by (simp add: run_def connect_def connect_try_def ok_connect_def consume_def Let_def
        new_client_def)
  from cancelConsumer_removes [OF c refl, where cfg = default_config
      and evs = "[Connect ok_connect, Consume (Inr ''amq.ctag-1'') ''payments.process'' []]"
      and queue = "''payments.process''" and tag = "''amq.ctag-1''"]
    cancelConsumer_removes [OF c refl, where cfg = default_config
      and evs = "[Connect ok_connect, Consume (Inr ''amq.ctag-1'') ''payments.process'' []]"
      and queue = "''payments.retry''" and res = "Inr ()"]
  show ?thesis
    using r by simp
qed

subsection \<open>Retries in the payment service\<close>

lemma gateway_down_throws:
  "simulatePaymentGateway gateway_down amount = Inl (Raised ''Payment gateway timeout'')"
  by (simp add: simulatePaymentGateway_def gateway_down_def)

lemma gateway_down_fields:
  "failedAt gateway_down = ''2024-01-01T00:00:00.000Z''"
  "failure_iso gateway_down = ''2024-01-01T00:00:00.000Z''"
  "failure_send gateway_down = send_ok"
  by (simp_all add: gateway_down_def)

lemma connected_service_fields:
  "connection connected_service = Some 1" "isConnected connected_service"
  "consumers connected_service = []" "failedPayments connected_service = []"
  "payments connected_service = []" "serviceName connected_service = ''payment-service''"
  "reconnectTimer connected_service = None" "timers connected_service = []"
  by (simp_all add: connected_service_def connect_def connect_try_def ok_connect_def Let_def
      new_service_def new_client_def client.extend_def emit_def)

lemma emit_service_frame [simp]:
  "payments (emit c s) = payments s" "failedPayments (emit c s) = failedPayments s"
  by (simp_all add: emit_def)

text \<open>\<^verbatim>\<open>handleRetry\<close>, when it is called, re-publishes with the attempt count plus one.\<close>

lemma handleRetry_increments:
  assumes "channel s \<noteq> None" and "accepted env = Inr True"
  shows "handleRetry env retryData msg s
           = (Inr (),
              emit (SendToQueueCall paymentsProcess (JObj retryData)
                      (AList.merge (send_defaults env s)
                         [(''headers'',
                           JObj [(''x-retry-count'', JNum (retryCountOf msg + 1))])])) s)"
  using assms by (auto simp add: handleRetry_def sendToQueue_def Let_def)

text \<open>
  C1 (what the code does where the claim fails). A payment request arrives without an
  \<^verbatim>\<open>x-retry-count\<close> header and the gateway fails. The first execution reads attempt
  count 0 and the only thing the service does is reject the delivery with requeue. The
  broker hands the same message back marked redelivered, and the second execution reads
  attempt count 0 again, not 1, and the service rejects it without requeue. The consumer
  on the retry queue publishes nothing: it acknowledges the delivery and that is all.
\<close>

theorem second_execution_sees_attempt_zero:
  "retryCountOf first_delivery = 0
   \<and> calls (deliver default_config gateway_down paymentsProcess first_delivery
               connected_service)
       = calls connected_service @ [NackCall 1 False True]
   \<and> retryCountOf (first_delivery\<lparr>redelivered := True\<rparr>) = 0
   \<and> calls (deliver default_config gateway_down paymentsProcess
               (first_delivery\<lparr>redelivered := True\<rparr>)
               (deliver default_config gateway_down paymentsProcess first_delivery
                  connected_service))
       = calls connected_service @ [NackCall 1 False True, NackCall 1 False False]
   \<and> calls (deliver default_config gateway_down paymentsRetry first_delivery
               connected_service)
       = calls connected_service @ [AckCall 1]"
  by (simp add: retryCountOf_def first_delivery_def deliver_def start_consumers_def
      paymentsProcess_def paymentsRetry_def paymentsDead_def on_message_def on_message_try_def
      processPayment_def payment_try_def gateway_down_throws default_config_def
      channel_call_def connected_service_channel AList.merge_def Let_def)

text \<open>
  C2 (what the code does where the claim fails). A payment request arrives for the first
  time carrying attempt count 3, the configured maximum, and the gateway fails. The
  request is stored among the failed payments and the failure event is published, but
  the delivery is then rejected with requeue set, so the broker puts it back on the
  payment queue.
\<close>

theorem exhausted_first_delivery_requeued:
  "retryCountOf exhausted_delivery = 3
   \<and> maxAttempts default_config = 3
   \<and> redelivered exhausted_delivery = False
   \<and> calls (deliver default_config gateway_down paymentsProcess exhausted_delivery
               connected_service)
       = calls connected_service @
         [PublishCall ''orders.fanout'' []
            (JObj [(''eventType'', JStr ''payment.failed''), (''orderId'', JStr ''ORD-1''),
                   (''error'', JStr ''Payment gateway timeout''), (''retryCount'', JNum 3),
                   (''timestamp'', JStr ''2024-01-01T00:00:00.000Z'')])
            [(''persistent'', JBool True), (''contentType'', JStr ''application/json''),
             (''timestamp'', JNum 1000),
             (''messageId'', JStr ''payment-service-1000-k3x9q2m1z'')],
          NackCall 1 False True]
   \<and> map fst (failedPayments (deliver default_config gateway_down paymentsProcess
                                 exhausted_delivery connected_service))
       = [Some (JStr ''ORD-1'')]"
  by (simp add: retryCountOf_def exhausted_delivery_def deliver_def start_consumers_def
      paymentsProcess_def paymentsRetry_def paymentsDead_def on_message_def on_message_try_def
      processPayment_def payment_try_def gateway_down_throws default_config_def
      channel_call_def connected_service_channel connected_service_fields AList.merge_def
      Let_def publish_def send_defaults_def generateMessageId_def gateway_down_fields
      send_ok_def payment_request_def ordersFanout_def show_nat_1000)

end
